theory Spec2Isabelle
  imports Complex_Main "HOL-Library.Signed_Division"
begin

section \<open>Data model\<close>

text \<open>
  The Go sources embedded here are the scheduler's snapshot (package \<open>cache\<close>:
  \<open>Snapshot\<close>, \<open>nodeSlices\<close>), the generated client set (\<open>NewForConfig\<close>,
  \<open>NewForConfigAndClient\<close>) and the test of the load-aware scorer (\<open>TestLoadAware\<close>).
  A Go value that may be \<open>nil\<close> is an \<open>option\<close>; a Go \<open>(T, error)\<close> result is
  \<open>error + T\<close> with \<open>Inl\<close> for the error.
\<close>

datatype error =
    NodeInfoNotFound string
  | BurstRequired
  | ClientError string
  | PodResourceTypeError
  | DivideByZero

text \<open>Pod resource-assurance classes (\<open>podutil.GuaranteedPod\<close>, \<open>podutil.BestEffortPod\<close>).\<close>

datatype PodResourceType = GuaranteedPod | BestEffortPod

text \<open>
  A pod as \<open>TestLoadAware\<close> builds it with \<open>MakePod().Name(..).UID(..).Annotation(..).Req(..).Node(..)\<close>:
  the resource-type annotation (\<open>None\<close> when absent or unrecognised), the requests by
  resource name (CPU in milli-cores, memory in bytes) and the node it is assigned to.
\<close>

record Pod =
  podName :: string
  podUID :: string
  podResourceType :: "PodResourceType option"
  podRequests :: "string \<rightharpoonup> int"
  podNodeName :: string

text \<open>The raw node object and the node-management object; only their presence is read here.\<close>

datatype Node = Node string

datatype NMNode = NMNode string

text \<open>
  \<open>framework.NodeInfo\<close> is an interface over a pointer to a mutable object. The record
  holds the object's address \<open>ref\<close> (Go's \<open>==\<close> on two \<open>NodeInfo\<close> values compares
  addresses) and what the getters used by the sources return at the moment of the call:
  \<open>GetNodeName\<close>, \<open>GetNode\<close>, \<open>GetNMNode\<close>, \<open>GetNodeInSchedulerPartition\<close>,
  \<open>GetNMNodeInSchedulerPartition\<close>, \<open>GetPodsWithAffinity\<close>,
  \<open>GetPodsWithRequiredAntiAffinity\<close>, and for the scorer the assigned pods and the
  allocatable resources.
\<close>

record NodeInfo =
  ref :: nat
  nodeName :: string
  node :: "Node option"
  nmNode :: "NMNode option"
  nodeInSchedulerPartition :: bool
  nmNodeInSchedulerPartition :: bool
  podsWithAffinity :: "Pod list"
  podsWithRequiredAntiAffinity :: "Pod list"
  pods :: "Pod list"
  allocatable :: "string \<rightharpoonup> int"

section \<open>Node slices of the snapshot\<close>

text \<open>
  Modelled from the spec: \<open>framework.NodeHashSlice\<close> is not among the sources. It is a
  duplicate-free sequence of node infos keyed by node name (the identity of a NodeInfo is
  its node name); \<open>Add\<close> of a name already present and \<open>Del\<close> of an absent name change
  nothing and report \<open>False\<close>.
\<close>

type_synonym NodeHashSlice = "NodeInfo list"

definition NewNodeHashSlice :: NodeHashSlice where
  "NewNodeHashSlice = []"

definition Has :: "NodeHashSlice \<Rightarrow> string \<Rightarrow> bool" where
  "Has hs name = (name \<in> set (map nodeName hs))"

definition Add :: "NodeHashSlice \<Rightarrow> NodeInfo \<Rightarrow> bool \<times> NodeHashSlice" where
  "Add hs n = (if Has hs (nodeName n) then (False, hs) else (True, hs @ [n]))"

definition Del :: "NodeHashSlice \<Rightarrow> NodeInfo \<Rightarrow> bool \<times> NodeHashSlice" where
  "Del hs n =
     (if Has hs (nodeName n) then (True, filter (\<lambda>x. nodeName x \<noteq> nodeName n) hs)
      else (False, hs))"

definition Nodes :: "NodeHashSlice \<Rightarrow> NodeInfo list" where
  "Nodes hs = hs"

definition Len :: "NodeHashSlice \<Rightarrow> nat" where
  "Len hs = length hs"

text \<open>
  Modelled from the spec: \<open>nodestore.GlobalNodeInfoPlaceHolder\<close> is not among the
  sources. It is one designated NodeInfo object, here the one at address 0, with nothing
  attached.
\<close>

definition GlobalNodeInfoPlaceHolder :: NodeInfo where
  "GlobalNodeInfoPlaceHolder =
     \<lparr>ref = 0, nodeName = [], node = None, nmNode = None,
      nodeInSchedulerPartition = False, nmNodeInSchedulerPartition = False,
      podsWithAffinity = [], podsWithRequiredAntiAffinity = [],
      pods = [], allocatable = Map.empty\<rparr>"

record nodeSlices =
  inPartitionNodeSlice :: NodeHashSlice
  outOfPartitionNodeSlice :: NodeHashSlice
  havePodsWithAffinityNodeSlice :: NodeHashSlice
  havePodsWithRequiredAntiAffinityNodeSlice :: NodeHashSlice

definition newNodeSlices :: nodeSlices where
  "newNodeSlices =
     \<lparr>inPartitionNodeSlice = NewNodeHashSlice,
      outOfPartitionNodeSlice = NewNodeHashSlice,
      havePodsWithAffinityNodeSlice = NewNodeHashSlice,
      havePodsWithRequiredAntiAffinityNodeSlice = NewNodeHashSlice\<rparr>"

text \<open>\<open>op\<close> discards the boolean that \<open>Add\<close> and \<open>Del\<close> return.\<close>

definition op :: "NodeHashSlice \<Rightarrow> NodeInfo \<Rightarrow> bool \<Rightarrow> NodeHashSlice" where
  "op slice n isAdd = (if isAdd then snd (Add slice n) else snd (Del slice n))"

text \<open>
  \<open>nodeSlices.update\<close>: the placeholder is compared by address and skipped; the node goes
  to exactly one of the two partition slices according to its flags at the time of the
  call, and to each affinity slice whose pod list is non-empty.
\<close>

definition update :: "nodeSlices \<Rightarrow> NodeInfo \<Rightarrow> bool \<Rightarrow> nodeSlices" where
  "update s n isAdd =
     (if ref n = ref GlobalNodeInfoPlaceHolder then s
      else
        let s1 = (if nodeInSchedulerPartition n \<or> nmNodeInSchedulerPartition n
                  then s\<lparr>inPartitionNodeSlice := op (inPartitionNodeSlice s) n isAdd\<rparr>
                  else s\<lparr>outOfPartitionNodeSlice := op (outOfPartitionNodeSlice s) n isAdd\<rparr>);
            s2 = (if length (podsWithAffinity n) > 0
                  then s1\<lparr>havePodsWithAffinityNodeSlice :=
                            op (havePodsWithAffinityNodeSlice s1) n isAdd\<rparr>
                  else s1);
            s3 = (if length (podsWithRequiredAntiAffinity n) > 0
                  then s2\<lparr>havePodsWithRequiredAntiAffinityNodeSlice :=
                            op (havePodsWithRequiredAntiAffinityNodeSlice s2) n isAdd\<rparr>
                  else s2)
        in s3)"

text \<open>
  The node store's hooks as \<open>NewEmptySnapshot\<close> wires them: \<open>AfterAdd\<close> calls
  \<open>update n true\<close>, \<open>AfterDelete\<close> calls \<open>update n false\<close>. A run of node-store events
  starts from \<open>newNodeSlices\<close>.
\<close>

datatype NodeStoreEvent = AfterAdd NodeInfo | AfterDelete NodeInfo


fun handleEvent :: "nodeSlices \<Rightarrow> NodeStoreEvent \<Rightarrow> nodeSlices" where
  "handleEvent s (AfterAdd n) = update s n True"
| "handleEvent s (AfterDelete n) = update s n False"

definition runEvents :: "NodeStoreEvent list \<Rightarrow> nodeSlices" where
  "runEvents es = foldl handleEvent newNodeSlices es"

text \<open>The nodes of the four lists, in-partition first.\<close>

definition allSliceNodes :: "nodeSlices \<Rightarrow> NodeInfo list" where
  "allSliceNodes s =
     Nodes (inPartitionNodeSlice s) @ Nodes (outOfPartitionNodeSlice s)
     @ Nodes (havePodsWithAffinityNodeSlice s)
     @ Nodes (havePodsWithRequiredAntiAffinityNodeSlice s)"

text \<open>No list holds the placeholder object (compared by address, as \<open>update\<close> does).\<close>

definition placeholderFree :: "nodeSlices \<Rightarrow> bool" where
  "placeholderFree s =
     (\<forall>x \<in> set (allSliceNodes s). ref x \<noteq> ref GlobalNodeInfoPlaceHolder)"






section \<open>Snapshot lookups\<close>

text \<open>
  Modelled from the spec: \<open>nodestore.NodeStore\<close> is not among the sources. Its \<open>Get\<close>
  returns the NodeInfo stored under the node name, \<open>nil\<close> when there is none.
\<close>

type_synonym NodeStore = "string \<rightharpoonup> NodeInfo"

definition NodeStore_Get :: "NodeStore \<Rightarrow> string \<Rightarrow> NodeInfo option" where
  "NodeStore_Get store name = store name"

text \<open>
  The snapshot: its node slices and, of its store switch, the node store that
  \<open>storeSwitch.Find(nodestore.Name)\<close> resolves.
\<close>

record Snapshot =
  snapshotNodeSlices :: nodeSlices
  nodeStore :: NodeStore

definition GetNodeInfo :: "Snapshot \<Rightarrow> string \<Rightarrow> NodeInfo option" where
  "GetNodeInfo s name = NodeStore_Get (nodeStore s) name"

definition Get :: "Snapshot \<Rightarrow> string \<Rightarrow> error + NodeInfo" where
  "Get s name =
     (case NodeStore_Get (nodeStore s) name of
        Some nodeInfo \<Rightarrow>
          if node nodeInfo \<noteq> None \<or> nmNode nodeInfo \<noteq> None then Inr nodeInfo
          else Inl (NodeInfoNotFound name)
      | None \<Rightarrow> Inl (NodeInfoNotFound name))"

definition NumNodes :: "Snapshot \<Rightarrow> nat" where
  "NumNodes s =
     Len (inPartitionNodeSlice (snapshotNodeSlices s)) +
     Len (outOfPartitionNodeSlice (snapshotNodeSlices s))"

definition List_nodes :: "Snapshot \<Rightarrow> NodeInfo list" where
  "List_nodes s =
     Nodes (inPartitionNodeSlice (snapshotNodeSlices s)) @
     Nodes (outOfPartitionNodeSlice (snapshotNodeSlices s))"

section \<open>Client set construction\<close>

text \<open>
  \<open>rest.Config\<close> as far as the constructors read it. \<open>QPS\<close> is a Go \<open>float32\<close>, of
  which only the comparison \<open>QPS > 0\<close> is used: a float is not-a-number, infinite or a
  finite real, and not-a-number compares false.
\<close>

datatype float32 = NaN | NegInf | Finite real | PosInf

fun float32_gt_zero :: "float32 \<Rightarrow> bool" where
  "float32_gt_zero NaN = False"
| "float32_gt_zero NegInf = False"
| "float32_gt_zero (Finite r) = (0 < r)"
| "float32_gt_zero PosInf = True"

datatype RateLimiter = TokenBucketRateLimiter float32 int | SuppliedRateLimiter nat

record Config =
  UserAgent :: string
  RateLimiter :: "RateLimiter option"
  QPS :: float32
  Burst :: int

datatype HTTPClient = HTTPClient nat

datatype RESTClient = RESTClient Config HTTPClient

record Clientset =
  DiscoveryClient :: RESTClient
  autoscalingV1alpha1 :: RESTClient
  autoscalingV1alpha2 :: RESTClient
  configV1alpha1 :: RESTClient
  nodeV1alpha1 :: RESTClient
  overcommitV1alpha1 :: RESTClient
  recommendationV1alpha1 :: RESTClient
  tideV1alpha1 :: RESTClient
  workloadV1alpha1 :: RESTClient

text \<open>
  The constructors of the typed group clients, of the discovery client and of the HTTP
  client live in other packages (\<open>rest\<close>, \<open>discovery\<close>, the \<open>typed\<close> packages); they are
  parameters of the model, each free to succeed or fail.
\<close>

record Packages =
  rest_DefaultKubernetesUserAgent :: string
  rest_HTTPClientFor :: "Config \<Rightarrow> error + HTTPClient"
  autoscalingv1alpha1_NewForConfigAndClient :: "Config \<Rightarrow> HTTPClient \<Rightarrow> error + RESTClient"
  autoscalingv1alpha2_NewForConfigAndClient :: "Config \<Rightarrow> HTTPClient \<Rightarrow> error + RESTClient"
  configv1alpha1_NewForConfigAndClient :: "Config \<Rightarrow> HTTPClient \<Rightarrow> error + RESTClient"
  nodev1alpha1_NewForConfigAndClient :: "Config \<Rightarrow> HTTPClient \<Rightarrow> error + RESTClient"
  overcommitv1alpha1_NewForConfigAndClient :: "Config \<Rightarrow> HTTPClient \<Rightarrow> error + RESTClient"
  recommendationv1alpha1_NewForConfigAndClient :: "Config \<Rightarrow> HTTPClient \<Rightarrow> error + RESTClient"
  tidev1alpha1_NewForConfigAndClient :: "Config \<Rightarrow> HTTPClient \<Rightarrow> error + RESTClient"
  workloadv1alpha1_NewForConfigAndClient :: "Config \<Rightarrow> HTTPClient \<Rightarrow> error + RESTClient"
  discovery_NewDiscoveryClientForConfigAndClient :: "Config \<Rightarrow> HTTPClient \<Rightarrow> error + RESTClient"

definition NewTokenBucketRateLimiter :: "float32 \<Rightarrow> int \<Rightarrow> RateLimiter" where
  "NewTokenBucketRateLimiter q b = TokenBucketRateLimiter q b"

text \<open>
  The second half of \<open>NewForConfigAndClient\<close>: the clients are built in the order of the
  source, the first error is returned and nothing after it is built.
\<close>

definition buildClients :: "Packages \<Rightarrow> Config \<Rightarrow> HTTPClient \<Rightarrow> error + Clientset" where
  "buildClients pk c h =
     (case autoscalingv1alpha1_NewForConfigAndClient pk c h of Inl err \<Rightarrow> Inl err | Inr a1 \<Rightarrow>
      case autoscalingv1alpha2_NewForConfigAndClient pk c h of Inl err \<Rightarrow> Inl err | Inr a2 \<Rightarrow>
      case configv1alpha1_NewForConfigAndClient pk c h of Inl err \<Rightarrow> Inl err | Inr cf \<Rightarrow>
      case nodev1alpha1_NewForConfigAndClient pk c h of Inl err \<Rightarrow> Inl err | Inr nd \<Rightarrow>
      case overcommitv1alpha1_NewForConfigAndClient pk c h of Inl err \<Rightarrow> Inl err | Inr oc \<Rightarrow>
      case recommendationv1alpha1_NewForConfigAndClient pk c h of Inl err \<Rightarrow> Inl err | Inr rc \<Rightarrow>
      case tidev1alpha1_NewForConfigAndClient pk c h of Inl err \<Rightarrow> Inl err | Inr td \<Rightarrow>
      case workloadv1alpha1_NewForConfigAndClient pk c h of Inl err \<Rightarrow> Inl err | Inr wl \<Rightarrow>
      case discovery_NewDiscoveryClientForConfigAndClient pk c h of Inl err \<Rightarrow> Inl err | Inr dc \<Rightarrow>
        Inr \<lparr>DiscoveryClient = dc, autoscalingV1alpha1 = a1, autoscalingV1alpha2 = a2,
             configV1alpha1 = cf, nodeV1alpha1 = nd, overcommitV1alpha1 = oc,
             recommendationV1alpha1 = rc, tideV1alpha1 = td, workloadV1alpha1 = wl\<rparr>)"

definition NewForConfigAndClient :: "Packages \<Rightarrow> Config \<Rightarrow> HTTPClient \<Rightarrow> error + Clientset" where
  "NewForConfigAndClient pk c httpClient =
     (if RateLimiter c = None \<and> float32_gt_zero (QPS c) then
        (if Burst c \<le> 0 then Inl BurstRequired
         else buildClients pk
                (c\<lparr>RateLimiter := Some (NewTokenBucketRateLimiter (QPS c) (Burst c))\<rparr>) httpClient)
      else buildClients pk c httpClient)"

definition NewForConfig :: "Packages \<Rightarrow> Config \<Rightarrow> error + Clientset" where
  "NewForConfig pk c =
     (let configShallowCopy =
            (if UserAgent c = [] then c\<lparr>UserAgent := rest_DefaultKubernetesUserAgent pk\<rparr> else c)
      in case rest_HTTPClientFor pk configShallowCopy of
           Inl err \<Rightarrow> Inl err
         | Inr httpClient \<Rightarrow> NewForConfigAndClient pk configShallowCopy httpClient)"

section \<open>Load-aware scorer\<close>

text \<open>One entry of \<open>config.LoadAwareArgs.Resources\<close>.\<close>

record ResourceSpec =
  Name :: string
  Weight :: int
  ResourceType :: PodResourceType

definition ResourceCPU :: string where
  "ResourceCPU = ''cpu''"

definition ResourceMemory :: string where
  "ResourceMemory = ''memory''"

definition MaxNodeScore :: int where
  "MaxNodeScore = 100"

text \<open>
  Modelled from the spec: the load-aware plugin (\<open>NewLoadAware\<close> and its \<open>Score\<close>) is not
  among the sources, only its test \<open>TestLoadAware\<close> is. The definitions below follow
  section 4.5 of the specification, read so that they agree with the worked computations
  and expected scores of the test:
  \<^item> the utilisation of a resource is the sum over the pods assigned to the node whose
    resource type is the configured one, plus the request of the pod being scored (the
    test computes \<open>4000 - 2000\<close> for a 1-CPU pod scored on a node that hosts a 1-CPU pod,
    and \<open>4000 - 1000\<close> when the hosted pod is of the other type);
  \<^item> \<open>/\<close> is Go's integer division, which truncates (\<open>(50 + 87) / 2 = 68\<close> in the
    test), written \<open>sdiv\<close>;
  \<^item> what is counted for a pod that states no request for a resource is given by
    neither the specification nor the sources: section 4.5 counts nothing, and the first
    case of the test ("nothing scheduled, nothing requested (use least requests)")
    expects 97 where counting nothing gives 100. It is the parameter \<open>unstated\<close> of the
    model; no theorem below depends on its value;
  \<^item> a capacity of zero is not guarded (section 9 of the specification): the division
    panics. Quantities are unbounded integers; the specification gives no width.
\<close>

definition podRequest :: "(Pod \<Rightarrow> string \<Rightarrow> int) \<Rightarrow> Pod \<Rightarrow> string \<Rightarrow> int" where
  "podRequest unstated p r =
     (case podRequests p r of Some q \<Rightarrow> q | None \<Rightarrow> unstated p r)"

fun nodeRequested ::
  "(Pod \<Rightarrow> string \<Rightarrow> int) \<Rightarrow> Pod list \<Rightarrow> PodResourceType \<Rightarrow> string \<Rightarrow> int" where
  "nodeRequested unstated [] t r = 0"
| "nodeRequested unstated (p # ps) t r =
     (if podResourceType p = Some t then podRequest unstated p r else 0)
     + nodeRequested unstated ps t r"

definition nodeAllocatable :: "NodeInfo \<Rightarrow> string \<Rightarrow> int" where
  "nodeAllocatable ni r = (case allocatable ni r of Some c \<Rightarrow> c | None \<Rightarrow> 0)"

definition leastRequestedScore :: "int \<Rightarrow> int \<Rightarrow> error + int" where
  "leastRequestedScore used capacity =
     (if capacity = 0 then Inl DivideByZero
      else Inr (((capacity - used) * MaxNodeScore) sdiv capacity))"

text \<open>The loop over the configured resources, accumulating the weighted score and the weights.\<close>

fun scoreResources ::
  "(Pod \<Rightarrow> string \<Rightarrow> int) \<Rightarrow> ResourceSpec list \<Rightarrow> Pod \<Rightarrow> NodeInfo \<Rightarrow> int \<Rightarrow> int
     \<Rightarrow> error + (int \<times> int)" where
  "scoreResources unstated [] pod ni nodeScore weightSum = Inr (nodeScore, weightSum)"
| "scoreResources unstated (spec # specs) pod ni nodeScore weightSum =
     (let used = nodeRequested unstated (pods ni) (ResourceType spec) (Name spec)
                   + podRequest unstated pod (Name spec);
          capacity = nodeAllocatable ni (Name spec)
      in case leastRequestedScore used capacity of
           Inl err \<Rightarrow> Inl err
         | Inr resourceScore \<Rightarrow>
             scoreResources unstated specs pod ni
               (nodeScore + resourceScore * Weight spec) (weightSum + Weight spec))"

definition Score ::
  "(Pod \<Rightarrow> string \<Rightarrow> int) \<Rightarrow> ResourceSpec list \<Rightarrow> Pod \<Rightarrow> NodeInfo \<Rightarrow> error + int" where
  "Score unstated specs pod ni =
     (case podResourceType pod of
        None \<Rightarrow> Inl PodResourceTypeError
      | Some t \<Rightarrow>
          (case scoreResources unstated specs pod ni 0 0 of
             Inl err \<Rightarrow> Inl err
           | Inr (nodeScore, weightSum) \<Rightarrow>
               if weightSum = 0 then Inl DivideByZero
               else Inr (nodeScore sdiv weightSum)))"

text \<open>The reading of section 4.5 for the parameter: nothing is counted for an unstated request.\<close>

definition countNothing :: "Pod \<Rightarrow> string \<Rightarrow> int" where
  "countNothing p r = 0"

text \<open>
  Closed forms of what the loop computes for one configured resource when the pods
  state their requests: the request a pod states, the utilisation (assigned pods of the
  configured type, plus the pod being scored) and the score of the resource.
\<close>

definition statedRequest :: "Pod \<Rightarrow> string \<Rightarrow> int" where
  "statedRequest p r = (case podRequests p r of Some q \<Rightarrow> q | None \<Rightarrow> 0)"

definition utilisation :: "Pod \<Rightarrow> NodeInfo \<Rightarrow> ResourceSpec \<Rightarrow> int" where
  "utilisation pod ni spec =
     (\<Sum>p\<leftarrow>filter (\<lambda>p. podResourceType p = Some (ResourceType spec)) (pods ni).
        statedRequest p (Name spec))
     + statedRequest pod (Name spec)"

definition resourceScore :: "Pod \<Rightarrow> NodeInfo \<Rightarrow> ResourceSpec \<Rightarrow> int" where
  "resourceScore pod ni spec =
     ((nodeAllocatable ni (Name spec) - utilisation pod ni spec) * 100)
       sdiv nodeAllocatable ni (Name spec)"


text \<open>The pods of a node whose resource type is the type of some configured resource.\<close>

definition podsOfConfiguredTypes :: "ResourceSpec list \<Rightarrow> Pod list \<Rightarrow> Pod list" where
  "podsOfConfiguredTypes specs ps =
     filter (\<lambda>p. \<exists>spec \<in> set specs. podResourceType p = Some (ResourceType spec)) ps"





subsection \<open>The fixtures of TestLoadAware\<close>

definition defaultResourceSpec :: "ResourceSpec list" where
  "defaultResourceSpec =
     [\<lparr>Name = ResourceCPU, Weight = 1, ResourceType = BestEffortPod\<rparr>,
      \<lparr>Name = ResourceMemory, Weight = 1, ResourceType = BestEffortPod\<rparr>]"

definition Gi :: int where
  "Gi = 1024 * 1024 * 1024"

definition podRequests1 :: "string \<rightharpoonup> int" where
  "podRequests1 = [ResourceCPU \<mapsto> 1000, ResourceMemory \<mapsto> 1 * Gi]"

definition podRequests2 :: "string \<rightharpoonup> int" where
  "podRequests2 = [ResourceCPU \<mapsto> 2000, ResourceMemory \<mapsto> 2 * Gi]"

definition bePod :: Pod where
  "bePod = \<lparr>podName = ''pod'', podUID = ''uid'', podResourceType = Some BestEffortPod,
            podRequests = podRequests1, podNodeName = []\<rparr>"

definition bePod1 :: Pod where
  "bePod1 = \<lparr>podName = ''pod1'', podUID = ''pod1'', podResourceType = Some BestEffortPod,
             podRequests = podRequests1, podNodeName = ''machine1''\<rparr>"

definition bePod2 :: Pod where
  "bePod2 = \<lparr>podName = ''pod2'', podUID = ''pod2'', podResourceType = Some BestEffortPod,
             podRequests = podRequests2, podNodeName = ''machine2''\<rparr>"

definition gtPod1 :: Pod where
  "gtPod1 = \<lparr>podName = ''pod1'', podUID = ''pod1'', podResourceType = Some GuaranteedPod,
             podRequests = podRequests1, podNodeName = ''machine1''\<rparr>"

definition gtPod2 :: Pod where
  "gtPod2 = \<lparr>podName = ''pod2'', podUID = ''pod2'', podResourceType = Some GuaranteedPod,
             podRequests = podRequests2, podNodeName = ''machine2''\<rparr>"

definition nodeCapacity :: "string \<rightharpoonup> int" where
  "nodeCapacity = [ResourceCPU \<mapsto> 4000, ResourceMemory \<mapsto> 16 * Gi]"

text \<open>
  \<open>MakeNodeInfo().Name(name).Capacity(nodeCapacity)\<close>, with the pods that the cache
  assigned to the node: those of the test case whose \<open>Node(..)\<close> is this node.
\<close>

definition MakeNodeInfo :: "nat \<Rightarrow> string \<Rightarrow> Pod list \<Rightarrow> NodeInfo" where
  "MakeNodeInfo a name ps =
     \<lparr>ref = a, nodeName = name, node = Some (Node name), nmNode = None,
      nodeInSchedulerPartition = True, nmNodeInSchedulerPartition = False,
      podsWithAffinity = [], podsWithRequiredAntiAffinity = [],
      pods = filter (\<lambda>p. podNodeName p = name) ps, allocatable = nodeCapacity\<rparr>"

definition nodeInfo1 :: "Pod list \<Rightarrow> NodeInfo" where
  "nodeInfo1 ps = MakeNodeInfo 1 ''machine1'' ps"

definition nodeInfo2 :: "Pod list \<Rightarrow> NodeInfo" where
  "nodeInfo2 ps = MakeNodeInfo 2 ''machine2'' ps"

subsection \<open>Example values\<close>

text \<open>A Guaranteed pod of 1 CPU / 1 GiB on \<open>machine1\<close>, to host beside a best-effort pod.\<close>

definition gtPod3 :: Pod where
  "gtPod3 = \<lparr>podName = ''pod3'', podUID = ''pod3'', podResourceType = Some GuaranteedPod,
             podRequests = podRequests1, podNodeName = ''machine1''\<rparr>"

text \<open>A NodeInfo that has neither a raw node object nor a node-management object attached.\<close>

definition bareNodeInfo :: NodeInfo where
  "bareNodeInfo =
     \<lparr>ref = 3, nodeName = ''machine3'', node = None, nmNode = None,
      nodeInSchedulerPartition = False, nmNodeInSchedulerPartition = False,
      podsWithAffinity = [], podsWithRequiredAntiAffinity = [],
      pods = [], allocatable = Map.empty\<rparr>"

definition exampleSnapshot :: Snapshot where
  "exampleSnapshot =
     \<lparr>snapshotNodeSlices = runEvents [AfterAdd (nodeInfo1 []), AfterAdd bareNodeInfo],
      nodeStore = [''machine1'' \<mapsto> nodeInfo1 [], ''machine3'' \<mapsto> bareNodeInfo]\<rparr>"

text \<open>
  Event sequences. In the first the placeholder object is offered three times, once after
  its name and partition flag were changed. In the second \<open>machine1\<close> is added with
  pods with affinity, deleted with the same flags and added again out of the partition.
  In the third and fourth the flags of \<open>machine1\<close> change while it is listed: its
  partition flag between two adds, and its pods with affinity between the add and the
  delete.
\<close>

definition placeholderEvents :: "NodeStoreEvent list" where
  "placeholderEvents =
     [AfterAdd GlobalNodeInfoPlaceHolder,
      AfterAdd (nodeInfo1 []),
      AfterAdd (GlobalNodeInfoPlaceHolder\<lparr>nodeName := ''machine9'',
                                          nodeInSchedulerPartition := True\<rparr>),
      AfterDelete GlobalNodeInfoPlaceHolder,
      AfterAdd bareNodeInfo]"




text \<open>Packages whose constructors all succeed, and a configuration without burst.\<close>

definition okPackages :: Packages where
  "okPackages =
     \<lparr>rest_DefaultKubernetesUserAgent = ''agent'',
      rest_HTTPClientFor = (\<lambda>c. Inr (HTTPClient 0)),
      autoscalingv1alpha1_NewForConfigAndClient = (\<lambda>c h. Inr (RESTClient c h)),
      autoscalingv1alpha2_NewForConfigAndClient = (\<lambda>c h. Inr (RESTClient c h)),
      configv1alpha1_NewForConfigAndClient = (\<lambda>c h. Inr (RESTClient c h)),
      nodev1alpha1_NewForConfigAndClient = (\<lambda>c h. Inr (RESTClient c h)),
      overcommitv1alpha1_NewForConfigAndClient = (\<lambda>c h. Inr (RESTClient c h)),
      recommendationv1alpha1_NewForConfigAndClient = (\<lambda>c h. Inr (RESTClient c h)),
      tidev1alpha1_NewForConfigAndClient = (\<lambda>c h. Inr (RESTClient c h)),
      workloadv1alpha1_NewForConfigAndClient = (\<lambda>c h. Inr (RESTClient c h)),
      discovery_NewDiscoveryClientForConfigAndClient = (\<lambda>c h. Inr (RESTClient c h))\<rparr>"

definition noBurstConfig :: Config where
  "noBurstConfig = \<lparr>UserAgent = [], RateLimiter = None, QPS = Finite 5, Burst = 0\<rparr>"

section \<open>Lookup theorems\<close>

text \<open>
  C7: \<open>Snapshot.Get name\<close> returns an error exactly when the node store holds no NodeInfo
  under that name with a raw node object or a node-management object attached; otherwise
  it returns that NodeInfo and no error.
\<close>

theorem Get_error_iff_nothing_attached:
  "((\<exists>e. Get s name = Inl e) \<longleftrightarrow>
      \<not> (\<exists>ni. nodeStore s name = Some ni \<and> (node ni \<noteq> None \<or> nmNode ni \<noteq> None)))
   \<and> (\<forall>ni. nodeStore s name = Some ni \<and> (node ni \<noteq> None \<or> nmNode ni \<noteq> None)
         \<longrightarrow> Get s name = Inr ni)
   \<and> (\<forall>e. Get s name = Inl e \<longrightarrow> e = NodeInfoNotFound name)"
  by (auto simp: Get_def NodeStore_Get_def split: option.splits)

theorem Get_error_iff_nothing_attached_witness:
  "Get exampleSnapshot ''machine1'' = Inr (nodeInfo1 [])
   \<and> Get exampleSnapshot ''machine2'' = Inl (NodeInfoNotFound ''machine2'')
   \<and> Get exampleSnapshot ''machine3'' = Inl (NodeInfoNotFound ''machine3'')"
proof -
  have a: "nodeStore exampleSnapshot ''machine1'' = Some (nodeInfo1 [])
           \<and> (node (nodeInfo1 []) \<noteq> None \<or> nmNode (nodeInfo1 []) \<noteq> None)"
    by (simp add: exampleSnapshot_def nodeInfo1_def MakeNodeInfo_def)
  have b: "\<not> (\<exists>ni. nodeStore exampleSnapshot ''machine2'' = Some ni
                  \<and> (node ni \<noteq> None \<or> nmNode ni \<noteq> None))"
    by (simp add: exampleSnapshot_def)
  have c: "\<not> (\<exists>ni. nodeStore exampleSnapshot ''machine3'' = Some ni
                  \<and> (node ni \<noteq> None \<or> nmNode ni \<noteq> None))"
    by (simp add: exampleSnapshot_def bareNodeInfo_def)
  from a Get_error_iff_nothing_attached [of exampleSnapshot "''machine1''"]
  have "Get exampleSnapshot ''machine1'' = Inr (nodeInfo1 [])"
    by blast
  moreover from b Get_error_iff_nothing_attached [of exampleSnapshot "''machine2''"]
  have "Get exampleSnapshot ''machine2'' = Inl (NodeInfoNotFound ''machine2'')"
    by blast
  moreover from c Get_error_iff_nothing_attached [of exampleSnapshot "''machine3''"]
  have "Get exampleSnapshot ''machine3'' = Inl (NodeInfoNotFound ''machine3'')"
    by blast
  ultimately show ?thesis by simp
qed

text \<open>
  C8: \<open>Snapshot.GetNodeInfo name\<close> has no error result and returns exactly what the node
  store holds under the name (\<open>None\<close> when absent). For a stored NodeInfo with neither a
  raw node object nor a node-management object attached, \<open>GetNodeInfo\<close> returns it while
  \<open>Get\<close> returns the not-found error, and such a snapshot exists: the two lookups can
  disagree on whether a node exists.
\<close>

theorem GetNodeInfo_store_entry_and_Get_disagree:
  "GetNodeInfo s name = NodeStore_Get (nodeStore s) name
   \<and> GetNodeInfo s name = nodeStore s name
   \<and> (\<forall>ni. nodeStore s name = Some ni \<and> node ni = None \<and> nmNode ni = None
         \<longrightarrow> GetNodeInfo s name = Some ni \<and> Get s name = Inl (NodeInfoNotFound name))
   \<and> (\<exists>s' name' ni'. GetNodeInfo s' name' = Some ni' \<and> (\<exists>e. Get s' name' = Inl e))"
proof -
  have "GetNodeInfo exampleSnapshot ''machine3'' = Some bareNodeInfo"
    by (simp add: GetNodeInfo_def NodeStore_Get_def exampleSnapshot_def)
  moreover have "Get exampleSnapshot ''machine3'' = Inl (NodeInfoNotFound ''machine3'')"
    by (simp add: Get_def NodeStore_Get_def exampleSnapshot_def bareNodeInfo_def)
  ultimately have "\<exists>s' name' ni'. GetNodeInfo s' name' = Some ni' \<and> (\<exists>e. Get s' name' = Inl e)"
    by blast
  then show ?thesis
    by (simp add: GetNodeInfo_def Get_def NodeStore_Get_def)
qed

theorem GetNodeInfo_store_entry_and_Get_disagree_witness:
  "GetNodeInfo exampleSnapshot ''machine3'' = Some bareNodeInfo
   \<and> Get exampleSnapshot ''machine3'' = Inl (NodeInfoNotFound ''machine3'')
   \<and> GetNodeInfo exampleSnapshot ''machine2'' = None"
proof -
  have a: "nodeStore exampleSnapshot ''machine3'' = Some bareNodeInfo
           \<and> node bareNodeInfo = None \<and> nmNode bareNodeInfo = None"
    by (simp add: exampleSnapshot_def bareNodeInfo_def)
  have b: "nodeStore exampleSnapshot ''machine2'' = None"
    by (simp add: exampleSnapshot_def)
  from a GetNodeInfo_store_entry_and_Get_disagree [of exampleSnapshot "''machine3''"]
  have "GetNodeInfo exampleSnapshot ''machine3'' = Some bareNodeInfo
        \<and> Get exampleSnapshot ''machine3'' = Inl (NodeInfoNotFound ''machine3'')"
    by blast
  moreover from b GetNodeInfo_store_entry_and_Get_disagree [of exampleSnapshot "''machine2''"]
  have "GetNodeInfo exampleSnapshot ''machine2'' = None"
    by metis
  ultimately show ?thesis by simp
qed

section \<open>Client set theorems\<close>

text \<open>
  C9: when the configuration has no rate limiter, a QPS greater than 0 and a burst of 0 or
  less, \<open>NewForConfigAndClient\<close> returns the burst error and no client set, whatever the
  other constructors would do; \<open>NewForConfig\<close>, which ends in \<open>NewForConfigAndClient\<close>,
  returns an error and no client set as well.
\<close>

theorem NewForConfigAndClient_burst_required:
  assumes "RateLimiter c = None" and "float32_gt_zero (QPS c)" and "Burst c \<le> 0"
  shows "NewForConfigAndClient pk c httpClient = Inl BurstRequired
         \<and> (\<exists>err. NewForConfig pk c = Inl err)"
proof -
  have first: "NewForConfigAndClient pk c' h = Inl BurstRequired"
    if "RateLimiter c' = None" "QPS c' = QPS c" "Burst c' = Burst c" for c' h
    using that assms by (simp add: NewForConfigAndClient_def)
  have "\<exists>err. NewForConfig pk c = Inl err"
    using assms(1) first
    by (cases "UserAgent c = []") (auto simp: NewForConfig_def Let_def split: sum.splits)
  with first [of c httpClient] assms(1) show ?thesis by simp
qed

theorem NewForConfigAndClient_burst_required_witness:
  "NewForConfigAndClient okPackages noBurstConfig (HTTPClient 0) = Inl BurstRequired
   \<and> (\<exists>err. NewForConfig okPackages noBurstConfig = Inl err)"
proof -
  have a: "RateLimiter noBurstConfig = None" by (simp add: noBurstConfig_def)
  have b: "float32_gt_zero (QPS noBurstConfig)" by (simp add: noBurstConfig_def)
  have c: "Burst noBurstConfig \<le> 0" by (simp add: noBurstConfig_def)
  show ?thesis
    by (rule NewForConfigAndClient_burst_required [OF a b c])
qed

section \<open>Node slice theorems\<close>

lemma set_op_add:
  "set (op hs n True) = (if Has hs (nodeName n) then set hs else insert n (set hs))"
  by (simp add: op_def Add_def)

lemma set_op_del: "set (op hs n False) \<subseteq> set hs"
  by (auto simp: op_def Del_def)

lemma set_op_subset: "set (op hs n b) \<subseteq> insert n (set hs)"
  using set_op_del [of hs n] by (cases b) (auto simp: set_op_add)



lemma update_placeholderFree: "placeholderFree s \<Longrightarrow> placeholderFree (update s n b)"
  using set_op_subset [of _ n b]
  by (auto simp: placeholderFree_def allSliceNodes_def Nodes_def update_def Let_def)

lemma foldl_placeholderFree:
  "placeholderFree s \<Longrightarrow> placeholderFree (foldl handleEvent s es)"
proof (induction es arbitrary: s)
  case Nil
  then show ?case by simp
next
  case (Cons e es)
  then show ?case by (cases e) (simp_all add: update_placeholderFree)
qed

lemmas slice_eval =
  runEvents_def newNodeSlices_def NewNodeHashSlice_def update_def op_def Add_def Del_def
  Has_def Nodes_def allSliceNodes_def Let_def GlobalNodeInfoPlaceHolder_def bareNodeInfo_def
  nodeInfo1_def nodeInfo2_def MakeNodeInfo_def

text \<open>
  C6: whatever the sequence of node-store add and delete events, the placeholder object
  is in none of the four lists of the node slices: no element has its address, and so the
  placeholder itself is not an element.
\<close>

theorem placeholder_never_in_slices:
  "placeholderFree (runEvents es)
   \<and> GlobalNodeInfoPlaceHolder \<notin> set (allSliceNodes (runEvents es))"
proof -
  have "placeholderFree newNodeSlices"
    by (simp add: placeholderFree_def allSliceNodes_def Nodes_def newNodeSlices_def
        NewNodeHashSlice_def)
  then have "placeholderFree (runEvents es)"
    unfolding runEvents_def by (rule foldl_placeholderFree)
  then show ?thesis
    by (auto simp: placeholderFree_def)
qed

theorem placeholder_never_in_slices_witness:
  "placeholderFree (runEvents placeholderEvents)
   \<and> allSliceNodes (runEvents placeholderEvents) = [nodeInfo1 [], bareNodeInfo]"
proof -
  have "allSliceNodes (runEvents placeholderEvents) = [nodeInfo1 [], bareNodeInfo]"
    by (simp add: placeholderEvents_def slice_eval)
  with placeholder_never_in_slices [of placeholderEvents] show ?thesis
    by simp
qed






















section \<open>Load-aware scorer theorems\<close>

lemmas fixtures =
  defaultResourceSpec_def bePod_def bePod1_def bePod2_def gtPod1_def gtPod2_def gtPod3_def
  nodeCapacity_def MakeNodeInfo_def nodeInfo1_def nodeInfo2_def podRequests1_def
  podRequests2_def Gi_def ResourceCPU_def ResourceMemory_def

lemmas scorer_eval =
  Score_def leastRequestedScore_def podRequest_def nodeAllocatable_def MaxNodeScore_def
  signed_divide_int_def


lemma nodeRequested_filter:
  "nodeRequested unstated ps t r =
     nodeRequested unstated (filter (\<lambda>p. podResourceType p = Some t) ps) t r"
  by (induction ps) simp_all



lemma scoreResources_same_pods_by_type:
  assumes "\<forall>spec \<in> set specs.
             filter (\<lambda>p. podResourceType p = Some (ResourceType spec)) ps
             = filter (\<lambda>p. podResourceType p = Some (ResourceType spec)) (pods ni)"
  shows "scoreResources unstated specs pod (ni\<lparr>pods := ps\<rparr>) a w
         = scoreResources unstated specs pod ni a w"
  using assms
proof (induction specs arbitrary: a w)
  case Nil
  then show ?case by simp
next
  case (Cons spec specs)
  from Cons.prems have same:
    "filter (\<lambda>p. podResourceType p = Some (ResourceType spec)) ps
     = filter (\<lambda>p. podResourceType p = Some (ResourceType spec)) (pods ni)"
    and rest: "\<forall>spec \<in> set specs.
             filter (\<lambda>p. podResourceType p = Some (ResourceType spec)) ps
             = filter (\<lambda>p. podResourceType p = Some (ResourceType spec)) (pods ni)"
    by simp_all
  have "nodeRequested unstated ps (ResourceType spec) (Name spec)
        = nodeRequested unstated (pods ni) (ResourceType spec) (Name spec)"
    using nodeRequested_filter [of unstated ps "ResourceType spec" "Name spec"]
      nodeRequested_filter [of unstated "pods ni" "ResourceType spec" "Name spec"] same
    by simp
  then show ?case
    by (simp add: Cons.IH [OF rest] nodeAllocatable_def Let_def split: sum.splits)
qed

lemma filter_podsOfConfiguredTypes:
  "spec \<in> set specs \<Longrightarrow>
   filter (\<lambda>p. podResourceType p = Some (ResourceType spec)) (podsOfConfiguredTypes specs ps)
   = filter (\<lambda>p. podResourceType p = Some (ResourceType spec)) ps"
  unfolding podsOfConfiguredTypes_def filter_filter
  by (rule filter_cong) auto

text \<open>
  C3: pods whose resource type differs from the configured resource type are excluded
  from the utilisation: the sum for a resource is the sum over the assigned pods of its
  configured type, and on every node, whatever pods it hosts, the score is the score of
  the node with only its pods of the configured types. On the two 4000 milli-CPU /
  16 GiB nodes that host the Guaranteed pods of 1 CPU / 1 GiB and 2 CPU / 2 GiB, the
  1 CPU / 1 GiB best-effort pod scores 84 on both, as it does on the two nodes with no
  pods.
\<close>

theorem Score_ignores_other_type:
  "nodeRequested unstated ps t r
     = nodeRequested unstated (filter (\<lambda>p. podResourceType p = Some t) ps) t r
   \<and> Score unstated specs pod ni
       = Score unstated specs pod (ni\<lparr>pods := podsOfConfiguredTypes specs (pods ni)\<rparr>)
   \<and> Score unstated defaultResourceSpec bePod (nodeInfo1 [gtPod1, gtPod2]) = Inr 84
   \<and> Score unstated defaultResourceSpec bePod (nodeInfo2 [gtPod1, gtPod2]) = Inr 84
   \<and> Score unstated defaultResourceSpec bePod (nodeInfo1 []) = Inr 84
   \<and> Score unstated defaultResourceSpec bePod (nodeInfo2 []) = Inr 84"
proof -
  have same: "scoreResources unstated specs pod
          (ni\<lparr>pods := podsOfConfiguredTypes specs (pods ni)\<rparr>) 0 0
        = scoreResources unstated specs pod ni 0 0"
    by (rule scoreResources_same_pods_by_type) (simp add: filter_podsOfConfiguredTypes)
  have "Score unstated specs pod ni
       = Score unstated specs pod (ni\<lparr>pods := podsOfConfiguredTypes specs (pods ni)\<rparr>)"
    unfolding Score_def by (simp only: same)
  moreover have "Score unstated defaultResourceSpec bePod (nodeInfo1 [gtPod1, gtPod2]) = Inr 84"
    by (simp add: fixtures scorer_eval)
  moreover have "Score unstated defaultResourceSpec bePod (nodeInfo2 [gtPod1, gtPod2]) = Inr 84"
    by (simp add: fixtures scorer_eval)
  moreover have "Score unstated defaultResourceSpec bePod (nodeInfo1 []) = Inr 84"
    by (simp add: fixtures scorer_eval)
  moreover have "Score unstated defaultResourceSpec bePod (nodeInfo2 []) = Inr 84"
    by (simp add: fixtures scorer_eval)
  ultimately show ?thesis
    using nodeRequested_filter [of unstated ps t r] by blast
qed

theorem Score_ignores_other_type_witness:
  "pods (nodeInfo1 [bePod1, gtPod3, bePod2]) = [bePod1, gtPod3]
   \<and> podsOfConfiguredTypes defaultResourceSpec (pods (nodeInfo1 [bePod1, gtPod3, bePod2]))
       = [bePod1]
   \<and> Score countNothing defaultResourceSpec bePod (nodeInfo1 [bePod1, gtPod3, bePod2]) = Inr 68
   \<and> Score countNothing defaultResourceSpec bePod (nodeInfo1 [gtPod1, gtPod2]) = Inr 84"
proof -
  have a: "pods (nodeInfo1 [bePod1, gtPod3, bePod2]) = [bePod1, gtPod3]"
    by (simp add: fixtures)
  have b: "podsOfConfiguredTypes defaultResourceSpec (pods (nodeInfo1 [bePod1, gtPod3, bePod2]))
       = [bePod1]"
    by (simp add: podsOfConfiguredTypes_def fixtures)
  have c: "Score countNothing defaultResourceSpec bePod
             ((nodeInfo1 [bePod1, gtPod3, bePod2])\<lparr>pods := [bePod1]\<rparr>) = Inr 68"
    by (simp add: fixtures scorer_eval)
  from Score_ignores_other_type
    [of countNothing "[]" BestEffortPod "[]" defaultResourceSpec bePod
        "nodeInfo1 [bePod1, gtPod3, bePod2]"]
  have "Score countNothing defaultResourceSpec bePod (nodeInfo1 [bePod1, gtPod3, bePod2])
        = Score countNothing defaultResourceSpec bePod
            ((nodeInfo1 [bePod1, gtPod3, bePod2])
               \<lparr>pods := podsOfConfiguredTypes defaultResourceSpec
                          (pods (nodeInfo1 [bePod1, gtPod3, bePod2]))\<rparr>)"
    and d: "Score countNothing defaultResourceSpec bePod (nodeInfo1 [gtPod1, gtPod2]) = Inr 84"
    by blast+
  with b c have "Score countNothing defaultResourceSpec bePod (nodeInfo1 [bePod1, gtPod3, bePod2])
                 = Inr 68"
    by (simp only:)
  with a b d show ?thesis by (simp only: simp_thms)
qed




end
